theory Spec2Isabelle
  imports Main "HOL-Library.Word" "HOL-Library.Multiset"
begin

section \<open>Strings\<close>

text \<open>
  Go strings are byte sequences, as \<^typ>\<open>string\<close> is. The handler only splits on the
  one-byte separators \<open>":"\<close> and \<open>"/"\<close>, so \<open>strings.Split\<close> is modelled for a
  separator of one byte: it returns every piece between separators, and the whole
  string as the only piece when the separator does not occur.
\<close>

fun strings_Split :: "string \<Rightarrow> char \<Rightarrow> string list" where
  "strings_Split [] sep = [[]]"
| "strings_Split (x # xs) sep =
     (if x = sep then [] # strings_Split xs sep
      else (case strings_Split xs sep of
              [] \<Rightarrow> [[x]]
            | p # ps \<Rightarrow> (x # p) # ps))"

text \<open>\<open>strings.TrimPrefix\<close> and \<open>strings.TrimSuffix\<close>: the string unchanged when the
  prefix (suffix) is not there.\<close>

definition strings_TrimPrefix :: "string \<Rightarrow> string \<Rightarrow> string" where
  "strings_TrimPrefix s pre =
     (if take (length pre) s = pre then drop (length pre) s else s)"

definition strings_TrimSuffix :: "string \<Rightarrow> string \<Rightarrow> string" where
  "strings_TrimSuffix s suf =
     (if length suf \<le> length s \<and> drop (length s - length suf) s = suf
      then take (length s - length suf) s else s)"

text \<open>\<open>path.Join\<close> of a directory and a plain name (the lexical cleaning that Go
  applies to the joined path is not modelled; no property below reads the path).\<close>

definition path_Join :: "string \<Rightarrow> string \<Rightarrow> string" where
  "path_Join dir name = dir @ ''/'' @ name"

section \<open>Errors, panics and constants of the handler\<close>

text \<open>A non-nil Go \<open>error\<close> is identified by the text \<open>err.Error()\<close> returns; a value of
  type \<open>error\<close> is a \<^typ>\<open>'a option\<close>, \<^const>\<open>None\<close> standing for \<open>nil\<close>.\<close>

datatype go_error = GoError string

fun Error_text :: "go_error \<Rightarrow> string" where
  "Error_text (GoError s) = s"

text \<open>A run-time panic of the Go program: an index out of range, with the index and
  the length of the slice.\<close>

datatype panic = IndexOutOfRange nat nat

text \<open>How a call of the handler ends: it panics, it returns a value, or it never returns
  because it is blocked for ever in a send that nothing receives.\<close>

datatype 'a outcome = Panic panic | Return 'a | Blocked

definition ErrEmptyIndex :: go_error where
  "ErrEmptyIndex = GoError ''no ztocs created, all layers either skipped or produced errors''"

definition BuildFailedMessage :: string where
  "BuildFailedMessage = ''SOCI index build error''"

definition PushFailedMessage :: string where
  "PushFailedMessage = ''SOCI index push error''"

definition SkipPushOnEmptyIndexMessage :: string where
  "SkipPushOnEmptyIndexMessage = ''Skipping pushing SOCI index as it does not contain any zTOCs''"

definition BuildAndPushSuccessMessage :: string where
  "BuildAndPushSuccessMessage = ''Successfully built and pushed SOCI index''"

definition artifactsStoreName :: string where
  "artifactsStoreName = ''store''"

definition artifactsDbName :: string where
  "artifactsDbName = ''artifacts.db''"

section \<open>Values of the libraries the handler calls\<close>

text \<open>
  The registry client, the stores, the metadata database and the index builder belong to
  other packages. Their values are handles here: a store or database is named by the
  path it is rooted at, a builder by the arguments it was made from, an index by a
  number. A \<open>*Registry\<close> may be \<open>nil\<close>, hence an option.
\<close>

datatype Registry = Registry string

datatype SociStore = SociStore string

datatype ContentStore = ContentStore string

datatype ArtifactsDb = ArtifactsDb string

datatype Platform = Platform string string

datatype Index = Index nat

record Descriptor =
  MediaType :: string
  Digest :: string
  Size :: "64 word"

record Image =
  Name :: string
  Target :: Descriptor

datatype IndexBuilder = IndexBuilder ContentStore SociStore ArtifactsDb Platform "64 word"

text \<open>\<open>soci.IndexDescriptorInfo\<close>: a descriptor and the instant it was created at
  (\<open>time.Time\<close>, as a number of nanoseconds; \<open>Before\<close> is \<open><\<close>).\<close>

record IndexDescriptorInfo =
  Descriptor :: Descriptor
  CreatedAt :: int

definition Before :: "int \<Rightarrow> int \<Rightarrow> bool" where
  "Before t u = (t < u)"

section \<open>The world: the disk, and what was called and logged\<close>

datatype call =
    CallInit string
  | CallValidateImageManifest "Registry option" string string
  | CallCalculateFreeSpace string
  | CallMkdirTemp string string
  | CallRemoveAll string
  | CallNewWithContext string
  | CallPull "Registry option" string SociStore string
  | CallNewDB string
  | CallNewStore string
  | CallNewIndexBuilder ContentStore SociStore ArtifactsDb Platform "64 word"
  | CallBuild IndexBuilder Image
  | CallWriteSociIndex Index SociStore ArtifactsDb
  | CallGetIndexDescriptorCollection ContentStore ArtifactsDb Image "Platform list"
  | CallPush "Registry option" SociStore Descriptor string

datatype level = Info | Warn | Error

text \<open>A formatted message is kept as its format string and arguments.\<close>

datatype arg = S string | N nat | E go_error

datatype event =
    Call call
  | Log level string "arg list"
  | Printf string "arg list"
  | StartDeadlineWatcher string
  | QuitSignal

text \<open>
  The goroutine that \<open>setDeadline\<close> starts runs beside the main flow. The model lets
  it act at five points of the main flow: before the store is opened, before the pull,
  before the build, before the push, and at the exit, just before the deferred send on
  the quit channel. What it does while a statement of the main flow is running is taken
  at the next point.
\<close>

datatype point = AtStoreInit | AtPull | AtBuild | AtPush | AtExit

text \<open>
  The goroutine is not started yet (\<open>Idle\<close>), or waits in its \<open>select\<close> on the
  quit channel and on a timer channel that delivers at the given point or not at all
  before the main flow sends (\<open>Armed\<close>), or has left through its timeout case
  (\<open>Fired\<close>), or has left through its quit case (\<open>Cancelled\<close>).
\<close>

datatype watcher_state = Idle | Armed "point option" | Fired | Cancelled

text \<open>
  \<open>dirs\<close> holds the directory trees that exist on disk, each named by its root;
  \<open>trace\<close> is every call to another package and every log line, oldest first;
  \<open>watcher\<close> is the state of the deadline goroutine.
\<close>

record world =
  dirs :: "string set"
  trace :: "event list"
  watcher :: watcher_state

definition emit :: "event \<Rightarrow> world \<Rightarrow> world" where
  "emit e w = w\<lparr>trace := trace w @ [e]\<rparr>"


text \<open>The steps of the pipeline that come after manifest validation.\<close>

fun is_later_step :: "event \<Rightarrow> bool" where
  "is_later_step (Call (CallCalculateFreeSpace p)) = True"
| "is_later_step (Call (CallMkdirTemp d p)) = True"
| "is_later_step (Call (CallRemoveAll d)) = True"
| "is_later_step (Call (CallNewWithContext p)) = True"
| "is_later_step (Call (CallPull r p s d)) = True"
| "is_later_step (Call (CallNewDB p)) = True"
| "is_later_step (Call (CallNewStore p)) = True"
| "is_later_step (Call (CallNewIndexBuilder cs s db pl m)) = True"
| "is_later_step (Call (CallBuild b i)) = True"
| "is_later_step (Call (CallWriteSociIndex i s db)) = True"
| "is_later_step (Call (CallGetIndexDescriptorCollection cs db i ps)) = True"
| "is_later_step (Call (CallPush r s d p)) = True"
| "is_later_step (StartDeadlineWatcher d) = True"
| "is_later_step QuitSignal = True"
| "is_later_step e = False"

text \<open>
  What the other packages answer, one field for each function the handler calls. A Go
  function returning \<open>(value, error)\<close> whose value the handler reads only when the
  error is nil is a sum; \<open>registryutils.Init\<close> and \<open>os.MkdirTemp\<close> and
  \<open>oci.NewWithContext\<close>, whose value the handler keeps whatever the error, are pairs.
  \<open>fs.CalculateFreeSpace\<close> returns a number of bytes. \<open>sort.Slice\<close> is the Go
  library's sort, given the comparison on elements. \<open>ctx.Deadline()\<close> is an instant in
  nanoseconds. \<open>time_After t\<close> stands for the channel
  \<open>time.After(time.Until(t))\<close>: the point of the main flow at which it delivers, or
  \<open>None\<close> when it has not delivered by the time the main flow sends on the quit
  channel. When that is depends on the clock and on the scheduler, so it is given.
\<close>

record collaborators =
  registryutils_Init :: "string \<Rightarrow> Registry option \<times> go_error option"
  registry_ValidateImageManifest :: "Registry option \<Rightarrow> string \<Rightarrow> string \<Rightarrow> go_error option"
  registry_Pull :: "Registry option \<Rightarrow> string \<Rightarrow> SociStore \<Rightarrow> string \<Rightarrow> go_error + Descriptor"
  registry_Push :: "Registry option \<Rightarrow> SociStore \<Rightarrow> Descriptor \<Rightarrow> string \<Rightarrow> go_error option"
  fs_CalculateFreeSpace :: "string \<Rightarrow> nat"
  os_MkdirTemp :: "string \<Rightarrow> string \<Rightarrow> string \<times> go_error option"
  os_RemoveAll :: "string \<Rightarrow> go_error option"
  oci_NewWithContext :: "string \<Rightarrow> go_error option"
  soci_NewDB :: "string \<Rightarrow> go_error + ArtifactsDb"
  local_NewStore :: "string \<Rightarrow> go_error + ContentStore"
  platforms_DefaultSpec :: Platform
  soci_NewIndexBuilder ::
    "ContentStore \<Rightarrow> SociStore \<Rightarrow> ArtifactsDb \<Rightarrow> Platform \<Rightarrow> 64 word \<Rightarrow> go_error + IndexBuilder"
  builder_Build :: "IndexBuilder \<Rightarrow> Image \<Rightarrow> go_error + Index"
  soci_WriteSociIndex :: "Index \<Rightarrow> SociStore \<Rightarrow> ArtifactsDb \<Rightarrow> go_error option"
  soci_GetIndexDescriptorCollection ::
    "ContentStore \<Rightarrow> ArtifactsDb \<Rightarrow> Image \<Rightarrow> Platform list \<Rightarrow> go_error + IndexDescriptorInfo list"
  sort_Slice ::
    "(IndexDescriptorInfo \<Rightarrow> IndexDescriptorInfo \<Rightarrow> bool) \<Rightarrow> IndexDescriptorInfo list
       \<Rightarrow> IndexDescriptorInfo list"
  ctx_Deadline :: int
  time_After :: "int \<Rightarrow> point option"

text \<open>The two calls that change the disk: a successful \<open>os.MkdirTemp\<close> makes the
  directory it names, a successful \<open>os.RemoveAll\<close> removes the tree; a failed one
  leaves the disk as it was.\<close>

definition call_MkdirTemp ::
  "collaborators \<Rightarrow> string \<Rightarrow> string \<Rightarrow> world \<Rightarrow> (string \<times> go_error option) \<times> world" where
  "call_MkdirTemp c dir pattern w =
     (let r = os_MkdirTemp c dir pattern;
          w = emit (Call (CallMkdirTemp dir pattern)) w
      in (r, if snd r = None then w\<lparr>dirs := insert (fst r) (dirs w)\<rparr> else w))"

definition call_RemoveAll :: "collaborators \<Rightarrow> string \<Rightarrow> world \<Rightarrow> go_error option \<times> world" where
  "call_RemoveAll c p w =
     (let err = os_RemoveAll c p;
          w = emit (Call (CallRemoveAll p)) w
      in (err, if err = None then w\<lparr>dirs := dirs w - {p}\<rparr> else w))"

section \<open>The handler\<close>

subsection \<open>Parsing the image URI (the first four statements of handleRequest)\<close>

text \<open>The three locals \<open>registryHost\<close>, \<open>repo\<close> and \<open>digest\<close> that the
  parsing leaves behind.\<close>

record ImageReference =
  refHost :: string
  refRepo :: string
  refDigest :: string

definition parseImageUrl :: "string \<Rightarrow> ImageReference outcome" where
  "parseImageUrl imageUrl =
     (let parts = strings_Split imageUrl (CHR '':'') in
      if length parts \<le> 1 then Panic (IndexOutOfRange 1 (length parts))
      else
        let digest = parts ! 1;
            registryHost = hd (strings_Split imageUrl (CHR ''/''));
            repo = strings_TrimPrefix imageUrl (registryHost @ ''/'');
            repo = strings_TrimSuffix repo ('':'' @ digest)
        in Return \<lparr>refHost = registryHost, refRepo = repo, refDigest = digest\<rparr>)"

subsection \<open>lambdaError, createTempDir, cleanUp, setDeadline\<close>

definition lambdaError ::
  "string \<Rightarrow> go_error \<Rightarrow> world \<Rightarrow> (string \<times> go_error option) \<times> world" where
  "lambdaError msg err w = ((msg, Some err), emit (Log Error msg [E err]) w)"

definition createTempDir :: "collaborators \<Rightarrow> world \<Rightarrow> (string \<times> go_error option) \<times> world" where
  "createTempDir c w =
     (let freeSpace = fs_CalculateFreeSpace c ''/tmp'';
          w = emit (Call (CallCalculateFreeSpace ''/tmp'')) w;
          w = emit (Log Info ''There are %d bytes of free space in /tmp directory'' [N freeSpace]) w;
          w = (if freeSpace < 6000000000
               then emit (Log Warn ''Free space in /tmp is only %d bytes, which is less than 6GB''
                            [N freeSpace]) w
               else w);
          w = emit (Log Info ''Creating a directory to store images and SOCI artifacts'' []) w
      in call_MkdirTemp c ''/tmp'' ''soci-lambda'' w)"

definition cleanUp :: "collaborators \<Rightarrow> string \<Rightarrow> world \<Rightarrow> world" where
  "cleanUp c dataDir w =
     (let w = emit (Log Info ''Removing all files in %s'' [S dataDir]) w;
          (err, w) = call_RemoveAll c dataDir w
      in case err of
           Some e \<Rightarrow> emit (Log Error ''Clean up error'' [E e]) w
         | None \<Rightarrow> w)"

text \<open>
  \<open>setDeadline\<close> takes the deadline of the context, moves it ten seconds earlier,
  makes the timer channel for that instant and starts the goroutine, which then waits in
  its \<open>select\<close>.
\<close>

definition setDeadline :: "collaborators \<Rightarrow> string \<Rightarrow> world \<Rightarrow> world" where
  "setDeadline c dataDir w =
     (let deadline = ctx_Deadline c;
          deadline = deadline - 10 * 1000000000;
          timeoutChannel = time_After c deadline
      in emit (StartDeadlineWatcher dataDir) (w\<lparr>watcher := Armed timeoutChannel\<rparr>))"

text \<open>The timeout case of the goroutine: it cleans up, logs the timeout and returns, so
  that nothing receives on the quit channel any more.\<close>

definition watcher_timeout :: "collaborators \<Rightarrow> string \<Rightarrow> world \<Rightarrow> world" where
  "watcher_timeout c dataDir w =
     (let w = cleanUp c dataDir w;
          w = emit (Log Error ''Invocation timeout error''
                      [E (GoError ''Invocation timeout after 14 minutes and 50 seconds'')]) w
      in w\<lparr>watcher := Fired\<rparr>)"

text \<open>The goroutine at a point of the main flow: it takes its timeout case when it is
  still waiting and its timer channel delivers at this point; otherwise nothing
  happens.\<close>

definition watch :: "collaborators \<Rightarrow> string \<Rightarrow> point \<Rightarrow> world \<Rightarrow> world" where
  "watch c dataDir p w =
     (case watcher w of
        Armed timeoutChannel \<Rightarrow>
          if timeoutChannel = Some p then watcher_timeout c dataDir w else w
      | _ \<Rightarrow> w)"

subsection \<open>The stores and the database\<close>

definition initContainerdStore ::
  "collaborators \<Rightarrow> string \<Rightarrow> world \<Rightarrow> (go_error + ContentStore) \<times> world" where
  "initContainerdStore c dataDir w =
     (let p = path_Join dataDir artifactsStoreName
      in (local_NewStore c p, emit (Call (CallNewStore p)) w))"

definition initSociStore ::
  "collaborators \<Rightarrow> string \<Rightarrow> world \<Rightarrow> (SociStore \<times> go_error option) \<times> world" where
  "initSociStore c dataDir w =
     (let p = path_Join dataDir artifactsStoreName;
          err = oci_NewWithContext c p
      in ((SociStore p, err), emit (Call (CallNewWithContext p)) w))"

definition initSociArtifactsDb ::
  "collaborators \<Rightarrow> string \<Rightarrow> world \<Rightarrow> (go_error + ArtifactsDb) \<times> world" where
  "initSociArtifactsDb c dataDir w =
     (let artifactsDbPath = path_Join dataDir artifactsDbName;
          w = emit (Call (CallNewDB artifactsDbPath)) w
      in case soci_NewDB c artifactsDbPath of
           Inl err \<Rightarrow> (Inl err, w)
         | Inr artifactsDb \<Rightarrow> (Inr artifactsDb, w))"

subsection \<open>buildIndex\<close>

definition buildIndex ::
  "collaborators \<Rightarrow> string \<Rightarrow> SociStore \<Rightarrow> Image \<Rightarrow> 64 word \<Rightarrow> world
     \<Rightarrow> (go_error + Descriptor) \<times> world" where
  "buildIndex c dataDir sociStore img minLayerSize w =
     (let w = emit (Log Info ''Building SOCI index'' []) w;
          platform = platforms_DefaultSpec c;
          (r, w) = initSociArtifactsDb c dataDir w
      in case r of Inl err \<Rightarrow> (Inl err, w) | Inr artifactsDb \<Rightarrow>
     (let (r, w) = initContainerdStore c dataDir w
      in case r of Inl err \<Rightarrow> (Inl err, w) | Inr containerdStore \<Rightarrow>
     (let w = emit (Call (CallNewIndexBuilder containerdStore sociStore artifactsDb platform
                            minLayerSize)) w
      in case soci_NewIndexBuilder c containerdStore sociStore artifactsDb platform minLayerSize of
           Inl err \<Rightarrow> (Inl err, w) | Inr builder \<Rightarrow>
     (let w = emit (Call (CallBuild builder img)) w
      in case builder_Build c builder img of Inl err \<Rightarrow> (Inl err, w) | Inr index \<Rightarrow>
     (let w = emit (Call (CallWriteSociIndex index sociStore artifactsDb)) w
      in case soci_WriteSociIndex c index sociStore artifactsDb of
           Some err \<Rightarrow> (Inl err, w) | None \<Rightarrow>
     (let w = emit (Call (CallGetIndexDescriptorCollection containerdStore artifactsDb img
                            [platform])) w
      in case soci_GetIndexDescriptorCollection c containerdStore artifactsDb img [platform] of
           Inl err \<Rightarrow> (Inl err, w) | Inr indexDescriptorInfos \<Rightarrow>
     (if length indexDescriptorInfos = 0
      then (Inl (GoError ''No SOCI indices found in OCI store''), w)
      else
        let indexDescriptorInfos =
              sort_Slice c (\<lambda>i j. Before (CreatedAt i) (CreatedAt j)) indexDescriptorInfos
        in (Inr (Descriptor (indexDescriptorInfos ! (length indexDescriptorInfos - 1))),
            w))))))))"

subsection \<open>handleRequest\<close>

text \<open>
  The statements of \<open>handleRequest\<close> from the call of \<open>setDeadline\<close> to its last
  return: they run after the two \<open>defer\<close> statements are registered, so each of their
  returns is followed by the deferred send and the deferred \<open>cleanUp\<close>. The goroutine
  may act before each call of another package.
\<close>

definition handleRequest_body ::
  "collaborators \<Rightarrow> Registry option \<Rightarrow> string \<Rightarrow> string \<Rightarrow> string \<Rightarrow> 64 word \<Rightarrow> world
     \<Rightarrow> (string \<times> go_error option) \<times> world" where
  "handleRequest_body c registry repo digest dataDir minLayerSize w =
     (let w = setDeadline c dataDir w;
          w = watch c dataDir AtStoreInit w;
          ((sociStore, err), w) = initSociStore c dataDir w
      in case err of Some e \<Rightarrow> lambdaError ''OCI storage initialization error'' e w | None \<Rightarrow>
     (let w = watch c dataDir AtPull w;
          w = emit (Call (CallPull registry repo sociStore digest)) w
      in case registry_Pull c registry repo sociStore digest of
           Inl e \<Rightarrow> lambdaError ''Image pull error'' e w | Inr desc \<Rightarrow>
     (let img = \<lparr>Name = repo @ ''@'' @ digest, Target = desc\<rparr>;
          w = watch c dataDir AtBuild w;
          (r, w) = buildIndex c dataDir sociStore img minLayerSize w
      in case r of
           Inl e \<Rightarrow>
             if Error_text e = Error_text ErrEmptyIndex
             then ((SkipPushOnEmptyIndexMessage, None),
                   emit (Log Warn SkipPushOnEmptyIndexMessage []) w)
             else lambdaError BuildFailedMessage e w
         | Inr indexDescriptor \<Rightarrow>
     (let w = watch c dataDir AtPush w;
          w = emit (Call (CallPush registry sociStore indexDescriptor repo)) w
      in case registry_Push c registry sociStore indexDescriptor repo of
           Some e \<Rightarrow> lambdaError PushFailedMessage e w
         | None \<Rightarrow>
             ((BuildAndPushSuccessMessage, None),
              emit (Log Info BuildAndPushSuccessMessage []) w)))))"

text \<open>
  \<open>handleRequest\<close>. The values put into the context (\<open>RegistryURL\<close>,
  \<open>SOCIIndexDigest\<close>) only decorate log lines and are left out. The deferred functions
  run in the reverse order of their registration: first the send on the quit channel,
  then \<open>cleanUp\<close>. The quit channel has no buffer and the goroutine is its only
  receiver: the send completes when the goroutine is still waiting in its \<open>select\<close>,
  which then leaves through its quit case; once the goroutine has left through its
  timeout case the send blocks for ever, and neither the deferred \<open>cleanUp\<close> nor the
  return happens.
\<close>

definition handleRequest ::
  "collaborators \<Rightarrow> string \<Rightarrow> 64 word \<Rightarrow> world
     \<Rightarrow> (string \<times> go_error option) outcome \<times> world" where
  "handleRequest c imageUrl minLayerSize w =
     (case parseImageUrl imageUrl of
        Panic p \<Rightarrow> (Panic p, w)
      | Return ref \<Rightarrow>
     (let (registry, err) = registryutils_Init c (refHost ref);
          w = emit (Call (CallInit (refHost ref))) w;
          w = (case err of
                 Some e \<Rightarrow> emit (Printf ''Error initializing registry: %v'' [E e]) w
               | None \<Rightarrow> w);
          err = registry_ValidateImageManifest c registry (refRepo ref) (refDigest ref);
          w = emit (Call (CallValidateImageManifest registry (refRepo ref) (refDigest ref))) w
      in case err of
           Some e \<Rightarrow>
             (Return (''Exited early due to manifest validation error'', None),
              emit (Log Warn ''Image manifest validation error: %v'' [E e]) w)
         | None \<Rightarrow>
     (let ((dataDir, err), w) = createTempDir c w
      in case err of
           Some e \<Rightarrow>
             (let (r, w) = lambdaError ''Directory create error'' e w in (Return r, w))
         | None \<Rightarrow>
     (let (r, w) = handleRequest_body c registry (refRepo ref) (refDigest ref) dataDir minLayerSize w;
          w = watch c dataDir AtExit w
      in case watcher w of
           Armed timeoutChannel \<Rightarrow>
             (let w = emit QuitSignal (w\<lparr>watcher := Cancelled\<rparr>);
                  w = cleanUp c dataDir w
              in (Return r, w))
         | _ \<Rightarrow> (Blocked, w)))))"

section \<open>Concrete collaborators\<close>

text \<open>An insertion sort by a comparison, to stand for \<open>sort.Slice\<close> where a run needs
  one.\<close>

fun insert_by :: "('a \<Rightarrow> 'a \<Rightarrow> bool) \<Rightarrow> 'a \<Rightarrow> 'a list \<Rightarrow> 'a list" where
  "insert_by lt x [] = [x]"
| "insert_by lt x (y # ys) = (if lt x y then x # y # ys else y # insert_by lt x ys)"

definition sort_by :: "('a \<Rightarrow> 'a \<Rightarrow> bool) \<Rightarrow> 'a list \<Rightarrow> 'a list" where
  "sort_by lt xs = foldr (insert_by lt) xs []"

definition imageDesc :: Descriptor where
  "imageDesc = \<lparr>MediaType = ''application/vnd.oci.image.manifest.v1+json'',
                 Digest = ''sha256:1111'', Size = 7023\<rparr>"

definition indexDescOld :: Descriptor where
  "indexDescOld = \<lparr>MediaType = ''application/vnd.oci.image.manifest.v1+json'',
                    Digest = ''sha256:aaaa'', Size = 512\<rparr>"

definition indexDescNew :: Descriptor where
  "indexDescNew = \<lparr>MediaType = ''application/vnd.oci.image.manifest.v1+json'',
                    Digest = ''sha256:bbbb'', Size = 640\<rparr>"

definition indexDescMid :: Descriptor where
  "indexDescMid = \<lparr>MediaType = ''application/vnd.oci.image.manifest.v1+json'',
                    Digest = ''sha256:cccc'', Size = 576\<rparr>"

definition storedInfos :: "IndexDescriptorInfo list" where
  "storedInfos = [\<lparr>Descriptor = indexDescOld, CreatedAt = 100\<rparr>,
                  \<lparr>Descriptor = indexDescNew, CreatedAt = 300\<rparr>,
                  \<lparr>Descriptor = indexDescMid, CreatedAt = 200\<rparr>]"

text \<open>Collaborators that all succeed: the registry validates, pulls and pushes, the disk
  has room, and the store holds three indices for the image. The deadline is five
  minutes away and the timer does not deliver before the handler is done.\<close>

definition okCollaborators :: collaborators where
  "okCollaborators =
     \<lparr>registryutils_Init = (\<lambda>h. (Some (Registry h), None)),
      registry_ValidateImageManifest = (\<lambda>r p d. None),
      registry_Pull = (\<lambda>r p s d. Inr imageDesc),
      registry_Push = (\<lambda>r s d p. None),
      fs_CalculateFreeSpace = (\<lambda>p. 10000000000),
      os_MkdirTemp = (\<lambda>d p. (d @ ''/'' @ p @ ''4021'', None)),
      os_RemoveAll = (\<lambda>p. None),
      oci_NewWithContext = (\<lambda>p. None),
      soci_NewDB = (\<lambda>p. Inr (ArtifactsDb p)),
      local_NewStore = (\<lambda>p. Inr (ContentStore p)),
      platforms_DefaultSpec = Platform ''linux'' ''amd64'',
      soci_NewIndexBuilder = (\<lambda>cs s db pl m. Inr (IndexBuilder cs s db pl m)),
      builder_Build = (\<lambda>b i. Inr (Index 1)),
      soci_WriteSociIndex = (\<lambda>i s db. None),
      soci_GetIndexDescriptorCollection = (\<lambda>cs db i ps. Inr storedInfos),
      sort_Slice = sort_by,
      ctx_Deadline = 300000000000,
      time_After = (\<lambda>t. None)\<rparr>"

definition emptyWorld :: world where
  "emptyWorld = \<lparr>dirs = {}, trace = [], watcher = Idle\<rparr>"

definition exampleUrl :: string where
  "exampleUrl = ''registry.example.com/repo:latest''"

definition exampleDir :: string where
  "exampleDir = ''/tmp/soci-lambda4021''"

text \<open>The same collaborators with one answer changed each.\<close>

definition rejectingCollaborators :: collaborators where
  "rejectingCollaborators =
     okCollaborators\<lparr>registry_ValidateImageManifest :=
                        (\<lambda>r p d. Some (GoError ''unsupported media type''))\<rparr>"


definition undeletableCollaborators :: collaborators where
  "undeletableCollaborators =
     okCollaborators\<lparr>os_RemoveAll := (\<lambda>p. Some (GoError ''unlinkat: permission denied''))\<rparr>"

definition initFailingCollaborators :: collaborators where
  "initFailingCollaborators =
     okCollaborators\<lparr>registryutils_Init := (\<lambda>h. (None, Some (GoError ''no valid credentials'')))\<rparr>"

definition noTempCollaborators :: collaborators where
  "noTempCollaborators =
     okCollaborators\<lparr>os_MkdirTemp := (\<lambda>d p. ([], Some (GoError ''mkdir: read-only file system'')))\<rparr>"

definition lowSpaceCollaborators :: collaborators where
  "lowSpaceCollaborators = okCollaborators\<lparr>fs_CalculateFreeSpace := (\<lambda>p. 1000000000)\<rparr>"


definition emptyStoreCollaborators :: collaborators where
  "emptyStoreCollaborators =
     okCollaborators\<lparr>soci_GetIndexDescriptorCollection := (\<lambda>cs db i ps. Inr [])\<rparr>"

section \<open>The world after each part of the handler\<close>

text \<open>The world once \<open>handleRequest\<close> has called \<open>registryutils.Init\<close> and
  \<open>ValidateImageManifest\<close> (and printed the error of the first, if any).\<close>

definition after_validation :: "collaborators \<Rightarrow> ImageReference \<Rightarrow> world \<Rightarrow> world" where
  "after_validation c ref w =
     emit (Call (CallValidateImageManifest (fst (registryutils_Init c (refHost ref)))
                   (refRepo ref) (refDigest ref)))
       (case snd (registryutils_Init c (refHost ref)) of
          Some e \<Rightarrow> emit (Printf ''Error initializing registry: %v'' [E e])
                      (emit (Call (CallInit (refHost ref))) w)
        | None \<Rightarrow> emit (Call (CallInit (refHost ref))) w)"

text \<open>The run of the statements after the two \<open>defer\<close>s, started in the world that
  \<open>createTempDir\<close> leaves, and the world at the exit, once the goroutine has had its
  last chance to act before the deferred send.\<close>

definition body_run ::
  "collaborators \<Rightarrow> ImageReference \<Rightarrow> string \<Rightarrow> 64 word \<Rightarrow> world
     \<Rightarrow> (string \<times> go_error option) \<times> world" where
  "body_run c ref d m w =
     handleRequest_body c (fst (registryutils_Init c (refHost ref))) (refRepo ref) (refDigest ref)
       d m (snd (createTempDir c (after_validation c ref w)))"

definition at_exit :: "collaborators \<Rightarrow> ImageReference \<Rightarrow> string \<Rightarrow> 64 word \<Rightarrow> world \<Rightarrow> world" where
  "at_exit c ref d m w = watch c d AtExit (snd (body_run c ref d m w))"

subsection \<open>The helpers of the handler\<close>

lemma emit_simps [simp]:
  "trace (emit e w) = trace w @ [e]" "dirs (emit e w) = dirs w" "watcher (emit e w) = watcher w"
  by (simp_all add: emit_def)

lemma createTempDir_fst: "fst (createTempDir c w) = os_MkdirTemp c ''/tmp'' ''soci-lambda''"
  by (simp add: createTempDir_def call_MkdirTemp_def Let_def)

lemma createTempDir_dirs:
  "dirs (snd (createTempDir c w)) =
     (if snd (os_MkdirTemp c ''/tmp'' ''soci-lambda'') = None
      then insert (fst (os_MkdirTemp c ''/tmp'' ''soci-lambda'')) (dirs w) else dirs w)"
  by (simp add: createTempDir_def call_MkdirTemp_def Let_def)

lemma createTempDir_trace:
  "trace (snd (createTempDir c w)) =
     trace w @
     [Call (CallCalculateFreeSpace ''/tmp''),
      Log Info ''There are %d bytes of free space in /tmp directory'' [N (fs_CalculateFreeSpace c ''/tmp'')]] @
     (if fs_CalculateFreeSpace c ''/tmp'' < 6000000000
      then [Log Warn ''Free space in /tmp is only %d bytes, which is less than 6GB''
              [N (fs_CalculateFreeSpace c ''/tmp'')]]
      else []) @
     [Log Info ''Creating a directory to store images and SOCI artifacts'' [],
      Call (CallMkdirTemp ''/tmp'' ''soci-lambda'')]"
  by (simp add: createTempDir_def call_MkdirTemp_def Let_def)

lemma cleanUp_dirs:
  "dirs (cleanUp c d w) = (if os_RemoveAll c d = None then dirs w - {d} else dirs w)"
  by (simp add: cleanUp_def call_RemoveAll_def Let_def split: option.splits)

lemma cleanUp_trace:
  "trace (cleanUp c d w) =
     trace w @ [Log Info ''Removing all files in %s'' [S d], Call (CallRemoveAll d)] @
     (case os_RemoveAll c d of Some e \<Rightarrow> [Log Error ''Clean up error'' [E e]] | None \<Rightarrow> [])"
  by (simp add: cleanUp_def call_RemoveAll_def Let_def split: option.splits)

lemma cleanUp_watcher: "watcher (cleanUp c d w) = watcher w"
  by (simp add: cleanUp_def call_RemoveAll_def Let_def split: option.splits)



lemma initSociStore_fst:
  "fst (initSociStore c d w) =
     (SociStore (path_Join d artifactsStoreName), oci_NewWithContext c (path_Join d artifactsStoreName))"
  by (simp add: initSociStore_def Let_def)

lemma initSociStore_snd:
  "snd (initSociStore c d w) = emit (Call (CallNewWithContext (path_Join d artifactsStoreName))) w"
  by (simp add: initSociStore_def Let_def)

lemma lambdaError_fst: "fst (lambdaError msg e w) = (msg, Some e)"
  by (simp add: lambdaError_def)

lemma lambdaError_snd: "snd (lambdaError msg e w) = emit (Log Error msg [E e]) w"
  by (simp add: lambdaError_def)

subsection \<open>buildIndex\<close>

subsection \<open>The deadline goroutine\<close>


lemma watch_quiet: "watcher w = Armed tc \<Longrightarrow> tc \<noteq> Some p \<Longrightarrow> watch c d p w = w"
  by (simp add: watch_def)



lemma setDeadline_simps:
  "watcher (setDeadline c d w) = Armed (time_After c (ctx_Deadline c - 10000000000))"
  "dirs (setDeadline c d w) = dirs w"
  "trace (setDeadline c d w) = trace w @ [StartDeadlineWatcher d]"
  by (simp_all add: setDeadline_def Let_def)

lemma buildIndex_dirs: "dirs (snd (buildIndex c d s i m w)) = dirs w"
  by (simp add: buildIndex_def initSociArtifactsDb_def initContainerdStore_def Let_def
        split: sum.splits option.splits)

lemma buildIndex_watcher: "watcher (snd (buildIndex c d s i m w)) = watcher w"
  by (simp add: buildIndex_def initSociArtifactsDb_def initContainerdStore_def Let_def
        split: sum.splits option.splits)


lemma buildIndex_fst_indep:
  "fst (buildIndex c d s i m w) = fst (buildIndex c d s i m w')"
  by (simp add: buildIndex_def initSociArtifactsDb_def initContainerdStore_def Let_def
        split: sum.splits option.splits)


lemma buildIndex_lookup:
  assumes "soci_NewDB c (path_Join d artifactsDbName) = Inr db"
    and "local_NewStore c (path_Join d artifactsStoreName) = Inr cs"
    and "soci_NewIndexBuilder c cs s db (platforms_DefaultSpec c) m = Inr b"
    and "builder_Build c b i = Inr idx"
    and "soci_WriteSociIndex c idx s db = None"
    and "soci_GetIndexDescriptorCollection c cs db i [platforms_DefaultSpec c] = Inr infos"
  shows "fst (buildIndex c d s i m w) =
           (if infos = [] then Inl (GoError ''No SOCI indices found in OCI store'')
            else Inr (Descriptor
                   (sort_Slice c (\<lambda>i j. Before (CreatedAt i) (CreatedAt j)) infos !
                    (length (sort_Slice c (\<lambda>i j. Before (CreatedAt i) (CreatedAt j)) infos) - 1))))"
  using assms
  by (simp add: buildIndex_def initSociArtifactsDb_def initContainerdStore_def Let_def)

subsection \<open>The handler after the workspace is made\<close>

lemma body_quiet:
  assumes "time_After c (ctx_Deadline c - 10000000000) = tc"
    and "tc = None \<or> tc = Some AtExit"
  shows "watcher (snd (handleRequest_body c reg rp dg d m w)) = Armed tc"
    and "dirs (snd (handleRequest_body c reg rp dg d m w)) = dirs w"
proof -
  have q: "\<And>p w'. watcher w' = Armed tc \<Longrightarrow> p \<noteq> AtExit \<Longrightarrow> watch c d p w' = w'"
    using assms(2) by (auto simp: watch_def)
  have s: "watcher (setDeadline c d w) = Armed tc" "dirs (setDeadline c d w) = dirs w"
    by (simp_all add: setDeadline_simps assms(1))
  show "watcher (snd (handleRequest_body c reg rp dg d m w)) = Armed tc"
    by (simp add: handleRequest_body_def Let_def case_prod_beta q s initSociStore_fst
          initSociStore_snd lambdaError_def buildIndex_watcher
          split: option.splits sum.splits)
  show "dirs (snd (handleRequest_body c reg rp dg d m w)) = dirs w"
    by (simp add: handleRequest_body_def Let_def case_prod_beta q s initSociStore_fst
          initSociStore_snd lambdaError_def buildIndex_dirs buildIndex_watcher
          split: option.splits sum.splits)
qed


lemma body_success:
  assumes "oci_NewWithContext c (path_Join d artifactsStoreName) = None"
    and "registry_Pull c reg rp (SociStore (path_Join d artifactsStoreName)) dg = Inr desc"
    and "\<And>w'. fst (buildIndex c d (SociStore (path_Join d artifactsStoreName))
               \<lparr>Name = rp @ ''@'' @ dg, Target = desc\<rparr> m w') = Inr idesc"
    and "registry_Push c reg (SociStore (path_Join d artifactsStoreName)) idesc rp = None"
  shows "fst (handleRequest_body c reg rp dg d m w) = (BuildAndPushSuccessMessage, None)"
  using assms
  by (simp add: handleRequest_body_def Let_def case_prod_beta initSociStore_fst)

text \<open>The errors of the store, of the pull, of the build and of the push are returned
  with their category label.\<close>

lemma body_store_error:
  assumes "oci_NewWithContext c (path_Join d artifactsStoreName) = Some e"
  shows "fst (handleRequest_body c reg rp dg d m w) = (''OCI storage initialization error'', Some e)"
  using assms
  by (simp add: handleRequest_body_def Let_def case_prod_beta initSociStore_fst lambdaError_fst)

lemma body_pull_error:
  assumes "oci_NewWithContext c (path_Join d artifactsStoreName) = None"
    and "registry_Pull c reg rp (SociStore (path_Join d artifactsStoreName)) dg = Inl e"
  shows "fst (handleRequest_body c reg rp dg d m w) = (''Image pull error'', Some e)"
  using assms
  by (simp add: handleRequest_body_def Let_def case_prod_beta initSociStore_fst lambdaError_fst)

lemma body_build_error:
  assumes "oci_NewWithContext c (path_Join d artifactsStoreName) = None"
    and "registry_Pull c reg rp (SociStore (path_Join d artifactsStoreName)) dg = Inr desc"
    and "\<And>w'. fst (buildIndex c d (SociStore (path_Join d artifactsStoreName))
               \<lparr>Name = rp @ ''@'' @ dg, Target = desc\<rparr> m w') = Inl e"
    and "Error_text e \<noteq> Error_text ErrEmptyIndex"
  shows "fst (handleRequest_body c reg rp dg d m w) = (BuildFailedMessage, Some e)"
  using assms
  by (simp add: handleRequest_body_def Let_def case_prod_beta initSociStore_fst lambdaError_fst)

lemma body_push_error:
  assumes "oci_NewWithContext c (path_Join d artifactsStoreName) = None"
    and "registry_Pull c reg rp (SociStore (path_Join d artifactsStoreName)) dg = Inr desc"
    and "\<And>w'. fst (buildIndex c d (SociStore (path_Join d artifactsStoreName))
               \<lparr>Name = rp @ ''@'' @ dg, Target = desc\<rparr> m w') = Inr idesc"
    and "registry_Push c reg (SociStore (path_Join d artifactsStoreName)) idesc rp = Some e"
  shows "fst (handleRequest_body c reg rp dg d m w) = (PushFailedMessage, Some e)"
  using assms
  by (simp add: handleRequest_body_def Let_def case_prod_beta initSociStore_fst lambdaError_fst)

subsection \<open>The handler as a whole\<close>

lemma handleRequest_panic:
  "parseImageUrl imageUrl = Panic p \<Longrightarrow> handleRequest c imageUrl m w = (Panic p, w)"
  by (simp add: handleRequest_def)

lemma after_validation_dirs: "dirs (after_validation c ref w) = dirs w"
  by (simp add: after_validation_def split: option.splits)

lemma after_validation_later:
  "filter is_later_step (trace (after_validation c ref w)) = filter is_later_step (trace w)"
  by (simp add: after_validation_def split: option.splits)


lemma handleRequest_invalid:
  assumes "parseImageUrl imageUrl = Return ref"
    and "registry_ValidateImageManifest c (fst (registryutils_Init c (refHost ref)))
           (refRepo ref) (refDigest ref) = Some e"
  shows "handleRequest c imageUrl m w =
           (Return (''Exited early due to manifest validation error'', None),
            emit (Log Warn ''Image manifest validation error: %v'' [E e])
              (after_validation c ref w))"
  using assms
  by (simp add: handleRequest_def Let_def case_prod_beta after_validation_def)

lemma handleRequest_no_dir:
  assumes "parseImageUrl imageUrl = Return ref"
    and "registry_ValidateImageManifest c (fst (registryutils_Init c (refHost ref)))
           (refRepo ref) (refDigest ref) = None"
    and "os_MkdirTemp c ''/tmp'' ''soci-lambda'' = (d, Some e)"
  shows "fst (handleRequest c imageUrl m w) = Return (''Directory create error'', Some e)"
  using assms
  by (simp add: handleRequest_def Let_def case_prod_beta createTempDir_fst lambdaError_def)

lemma handleRequest_workspace:
  assumes "parseImageUrl imageUrl = Return ref"
    and "registry_ValidateImageManifest c (fst (registryutils_Init c (refHost ref)))
           (refRepo ref) (refDigest ref) = None"
    and "os_MkdirTemp c ''/tmp'' ''soci-lambda'' = (d, None)"
  shows "handleRequest c imageUrl m w =
           (case watcher (at_exit c ref d m w) of
              Armed t \<Rightarrow>
                (Return (fst (body_run c ref d m w)),
                 cleanUp c d (emit QuitSignal ((at_exit c ref d m w)\<lparr>watcher := Cancelled\<rparr>)))
            | _ \<Rightarrow> (Blocked, at_exit c ref d m w))"
  using assms
  by (simp add: handleRequest_def Let_def case_prod_beta createTempDir_fst after_validation_def
        at_exit_def body_run_def split: watcher_state.splits)


lemma at_exit_quiet:
  assumes "time_After c (ctx_Deadline c - 10000000000) = None"
  shows "at_exit c ref d m w = snd (body_run c ref d m w)"
    and "watcher (snd (body_run c ref d m w)) = Armed None"
    and "dirs (snd (body_run c ref d m w)) = dirs (snd (createTempDir c (after_validation c ref w)))"
proof -
  show w: "watcher (snd (body_run c ref d m w)) = Armed None"
    unfolding body_run_def by (rule body_quiet(1)[OF assms]) simp
  show "at_exit c ref d m w = snd (body_run c ref d m w)"
    unfolding at_exit_def by (rule watch_quiet[OF w]) simp
  show "dirs (snd (body_run c ref d m w)) = dirs (snd (createTempDir c (after_validation c ref w)))"
    unfolding body_run_def by (rule body_quiet(2)[OF assms]) simp
qed


lemma handleRequest_quiet:
  assumes "parseImageUrl imageUrl = Return ref"
    and "registry_ValidateImageManifest c (fst (registryutils_Init c (refHost ref)))
           (refRepo ref) (refDigest ref) = None"
    and "os_MkdirTemp c ''/tmp'' ''soci-lambda'' = (d, None)"
    and "time_After c (ctx_Deadline c - 10000000000) = None"
  shows "handleRequest c imageUrl m w =
           (Return (fst (body_run c ref d m w)),
            cleanUp c d (emit QuitSignal ((snd (body_run c ref d m w))\<lparr>watcher := Cancelled\<rparr>)))"
  by (simp add: handleRequest_workspace[OF assms(1-3)] at_exit_quiet[OF assms(4)])

lemma handleRequest_dirs:
  assumes "parseImageUrl imageUrl = Return ref"
    and "registry_ValidateImageManifest c (fst (registryutils_Init c (refHost ref)))
           (refRepo ref) (refDigest ref) = None"
    and "os_MkdirTemp c ''/tmp'' ''soci-lambda'' = (d, None)"
    and "time_After c (ctx_Deadline c - 10000000000) = None"
  shows "dirs (snd (handleRequest c imageUrl m w)) =
           (if os_RemoveAll c d = None then dirs w - {d} else insert d (dirs w))"
  by (simp add: handleRequest_quiet[OF assms] cleanUp_dirs at_exit_quiet(3)[OF assms(4)]
        createTempDir_dirs after_validation_dirs assms(3))


lemma handleRequest_returned:
  assumes "parseImageUrl imageUrl = Return ref"
    and "registry_ValidateImageManifest c (fst (registryutils_Init c (refHost ref)))
           (refRepo ref) (refDigest ref) = None"
    and "os_MkdirTemp c ''/tmp'' ''soci-lambda'' = (d, None)"
    and "fst (handleRequest c imageUrl m w) = Return r"
  shows "snd (handleRequest c imageUrl m w) =
           cleanUp c d (emit QuitSignal ((at_exit c ref d m w)\<lparr>watcher := Cancelled\<rparr>))"
  using assms(4)
  by (simp add: handleRequest_workspace[OF assms(1-3)] split: watcher_state.splits)


lemma handleRequest_success:
  assumes "parseImageUrl imageUrl = Return ref"
    and "registry_ValidateImageManifest c (fst (registryutils_Init c (refHost ref)))
           (refRepo ref) (refDigest ref) = None"
    and "os_MkdirTemp c ''/tmp'' ''soci-lambda'' = (d, None)"
    and "oci_NewWithContext c (path_Join d artifactsStoreName) = None"
    and "registry_Pull c (fst (registryutils_Init c (refHost ref))) (refRepo ref)
           (SociStore (path_Join d artifactsStoreName)) (refDigest ref) = Inr desc"
    and "\<And>w'. fst (buildIndex c d (SociStore (path_Join d artifactsStoreName))
               \<lparr>Name = refRepo ref @ ''@'' @ refDigest ref, Target = desc\<rparr> m w') = Inr idesc"
    and "registry_Push c (fst (registryutils_Init c (refHost ref)))
           (SociStore (path_Join d artifactsStoreName)) idesc (refRepo ref) = None"
    and "time_After c (ctx_Deadline c - 10000000000) = None"
  shows "fst (handleRequest c imageUrl m w) = Return (BuildAndPushSuccessMessage, None)"
  by (simp add: handleRequest_quiet[OF assms(1-3) assms(8)] body_run_def
        body_success[OF assms(4) assms(5) assms(6) assms(7)])

subsection \<open>The last element of a sorted slice\<close>

lemma sorted_wrt_last:
  assumes "sorted_wrt P ys" and "y \<in> set (butlast ys)"
  shows "P y (last ys)"
proof -
  have ne: "ys \<noteq> []" using assms(2) by auto
  then have "sorted_wrt P (butlast ys @ [last ys])" using assms(1) by simp
  then show ?thesis using assms(2) by (simp add: sorted_wrt_append)
qed

lemma latest_is_last:
  assumes "sorted_wrt (\<lambda>a b. \<not> Before (CreatedAt b) (CreatedAt a)) ys" and "y \<in> set ys"
  shows "CreatedAt y \<le> CreatedAt (last ys)"
proof (cases "y \<in> set (butlast ys)")
  case True
  then show ?thesis using sorted_wrt_last[OF assms(1) True] by (simp add: Before_def)
next
  case False
  have "ys \<noteq> []" using assms(2) by auto
  then have "ys = butlast ys @ [last ys]" by simp
  then have "set ys = set (butlast ys) \<union> {last ys}" by (metis set_append list.set(1,2))
  then have "y = last ys" using False assms(2) by simp
  then show ?thesis by simp
qed

lemma last_of_sorted_is_latest:
  assumes "mset ys = mset xs"
    and "sorted_wrt (\<lambda>a b. \<not> Before (CreatedAt b) (CreatedAt a)) ys"
    and "xs \<noteq> []"
  shows "ys ! (length ys - 1) \<in> set xs"
    and "\<forall>y\<in>set xs. CreatedAt y \<le> CreatedAt (ys ! (length ys - 1))"
proof -
  have sets: "set ys = set xs" using assms(1) by (rule mset_eq_setD)
  have ne: "ys \<noteq> []" using assms(3) sets by (metis set_empty)
  then have last: "ys ! (length ys - 1) = last ys" by (simp add: last_conv_nth)
  show "ys ! (length ys - 1) \<in> set xs"
    unfolding last using last_in_set[OF ne] sets by simp
  show "\<forall>y\<in>set xs. CreatedAt y \<le> CreatedAt (ys ! (length ys - 1))"
    unfolding last using latest_is_last[OF assms(2)] sets by simp
qed

subsection \<open>Splitting and trimming\<close>

lemma Split_ne: "strings_Split s c \<noteq> []"
  by (induction s) (auto split: list.splits)

lemma Split_no_sep: "c \<notin> set s \<Longrightarrow> strings_Split s c = [s]"
  by (induction s) auto

lemma Split_at_sep: "c \<notin> set a \<Longrightarrow> strings_Split (a @ c # b) c = a # strings_Split b c"
  by (induction a) auto

lemma Split_has_sep: "c \<in> set s \<Longrightarrow> 1 < length (strings_Split s c)"
  by (induction s) (auto split: list.splits simp: Split_ne)

lemma takeWhile_sep: "c \<notin> set a \<Longrightarrow> takeWhile (\<lambda>x. x \<noteq> c) (a @ c # b) = a"
  by (induction a) auto

lemma dropWhile_sep: "c \<notin> set a \<Longrightarrow> dropWhile (\<lambda>x. x \<noteq> c) (a @ c # b) = c # b"
  by (induction a) auto

lemma parse_no_colon:
  "CHR '':'' \<notin> set imageUrl \<Longrightarrow> parseImageUrl imageUrl = Panic (IndexOutOfRange 1 1)"
  by (simp add: parseImageUrl_def Split_no_sep)

lemma TrimPrefix_no_slash: "CHR ''/'' \<notin> set s \<Longrightarrow> strings_TrimPrefix s (s @ ''/'') = s"
  by (simp add: strings_TrimPrefix_def)

lemma parse_no_slash:
  assumes "CHR '':'' \<in> set imageUrl" and "CHR ''/'' \<notin> set imageUrl"
  shows "parseImageUrl imageUrl =
           Return \<lparr>refHost = imageUrl,
                   refRepo = strings_TrimSuffix imageUrl
                               ('':'' @ strings_Split imageUrl (CHR '':'') ! 1),
                   refDigest = strings_Split imageUrl (CHR '':'') ! 1\<rparr>"
  using assms Split_has_sep[of "CHR '':''" imageUrl]
  by (simp add: parseImageUrl_def Let_def Split_no_sep TrimPrefix_no_slash)

lemma parse_form:
  assumes "CHR ''/'' \<notin> set host" and "CHR '':'' \<notin> set host"
    and "CHR '':'' \<notin> set repository" and "CHR '':'' \<notin> set dg"
  shows "parseImageUrl (host @ ''/'' @ repository @ '':'' @ dg) =
           Return \<lparr>refHost = host, refRepo = repository, refDigest = dg\<rparr>"
proof -
  let ?url = "host @ ''/'' @ repository @ '':'' @ dg"
  have "CHR '':'' \<notin> set (host @ ''/'' @ repository)" using assms by simp
  from Split_at_sep[OF this, of dg]
  have colon: "strings_Split ?url (CHR '':'') = [host @ ''/'' @ repository, dg]"
    using assms(4) by (simp add: Split_no_sep)
  have slash: "hd (strings_Split ?url (CHR ''/'')) = host"
    using Split_at_sep[OF assms(1), of "repository @ '':'' @ dg"] by simp
  have pre: "strings_TrimPrefix ?url (host @ ''/'') = repository @ '':'' @ dg"
    by (simp add: strings_TrimPrefix_def)
  have suf: "strings_TrimSuffix (repository @ '':'' @ dg) ('':'' @ dg) = repository"
    by (simp add: strings_TrimSuffix_def)
  show ?thesis
    unfolding parseImageUrl_def Let_def colon slash pre
    using suf by simp
qed

subsection \<open>Runs with the concrete collaborators\<close>

lemma parse_example:
  "parseImageUrl exampleUrl =
     Return \<lparr>refHost = ''registry.example.com'', refRepo = ''repo'', refDigest = ''latest''\<rparr>"
  by (simp add: exampleUrl_def parseImageUrl_def strings_TrimPrefix_def strings_TrimSuffix_def)

lemma sort_example:
  "sort_by (\<lambda>i j. Before (CreatedAt i) (CreatedAt j)) storedInfos =
     [\<lparr>Descriptor = indexDescOld, CreatedAt = 100\<rparr>,
      \<lparr>Descriptor = indexDescMid, CreatedAt = 200\<rparr>,
      \<lparr>Descriptor = indexDescNew, CreatedAt = 300\<rparr>]"
  by (simp add: sort_by_def storedInfos_def Before_def)

lemma ok_fields [simp]:
  "registryutils_Init okCollaborators = (\<lambda>h. (Some (Registry h), None))"
  "registry_ValidateImageManifest okCollaborators = (\<lambda>r p d. None)"
  "registry_Pull okCollaborators = (\<lambda>r p s d. Inr imageDesc)"
  "registry_Push okCollaborators = (\<lambda>r s d p. None)"
  "fs_CalculateFreeSpace okCollaborators = (\<lambda>p. 10000000000)"
  "os_MkdirTemp okCollaborators = (\<lambda>d p. (d @ ''/'' @ p @ ''4021'', None))"
  "os_RemoveAll okCollaborators = (\<lambda>p. None)"
  "oci_NewWithContext okCollaborators = (\<lambda>p. None)"
  "soci_NewDB okCollaborators = (\<lambda>p. Inr (ArtifactsDb p))"
  "local_NewStore okCollaborators = (\<lambda>p. Inr (ContentStore p))"
  "platforms_DefaultSpec okCollaborators = Platform ''linux'' ''amd64''"
  "soci_NewIndexBuilder okCollaborators = (\<lambda>cs s db pl m. Inr (IndexBuilder cs s db pl m))"
  "builder_Build okCollaborators = (\<lambda>b i. Inr (Index 1))"
  "soci_WriteSociIndex okCollaborators = (\<lambda>i s db. None)"
  "soci_GetIndexDescriptorCollection okCollaborators = (\<lambda>cs db i ps. Inr storedInfos)"
  "sort_Slice okCollaborators = sort_by"
  "ctx_Deadline okCollaborators = 300000000000"
  "time_After okCollaborators = (\<lambda>t. None)"
  by (simp_all add: okCollaborators_def)

lemma buildIndex_example:
  assumes "soci_NewDB c = soci_NewDB okCollaborators"
    and "local_NewStore c = local_NewStore okCollaborators"
    and "soci_NewIndexBuilder c = soci_NewIndexBuilder okCollaborators"
    and "builder_Build c = builder_Build okCollaborators"
    and "soci_WriteSociIndex c = soci_WriteSociIndex okCollaborators"
    and "soci_GetIndexDescriptorCollection c = soci_GetIndexDescriptorCollection okCollaborators"
    and "sort_Slice c = sort_Slice okCollaborators"
  shows "fst (buildIndex c d s i m w) = Inr indexDescNew"
proof -
  have "fst (buildIndex c d s i m w) =
          (if storedInfos = [] then Inl (GoError ''No SOCI indices found in OCI store'')
            else Inr (Descriptor
                   (sort_Slice c (\<lambda>i j. Before (CreatedAt i) (CreatedAt j)) storedInfos !
                    (length (sort_Slice c (\<lambda>i j. Before (CreatedAt i) (CreatedAt j)) storedInfos) - 1))))"
    by (rule buildIndex_lookup[of c d "ArtifactsDb (path_Join d artifactsDbName)"
          "ContentStore (path_Join d artifactsStoreName)" s m
          "IndexBuilder (ContentStore (path_Join d artifactsStoreName)) s
             (ArtifactsDb (path_Join d artifactsDbName)) (platforms_DefaultSpec c) m"
          i "Index 1"]) (simp_all add: assms)
  also have "\<dots> = Inr indexDescNew"
    unfolding assms(7) ok_fields sort_example by (simp add: storedInfos_def)
  finally show ?thesis .
qed

lemma example_run_succeeds:
  assumes "registry_ValidateImageManifest c = registry_ValidateImageManifest okCollaborators"
    and "os_MkdirTemp c = os_MkdirTemp okCollaborators"
    and "oci_NewWithContext c = oci_NewWithContext okCollaborators"
    and "registry_Pull c = registry_Pull okCollaborators"
    and "registry_Push c = registry_Push okCollaborators"
    and "soci_NewDB c = soci_NewDB okCollaborators"
    and "local_NewStore c = local_NewStore okCollaborators"
    and "soci_NewIndexBuilder c = soci_NewIndexBuilder okCollaborators"
    and "builder_Build c = builder_Build okCollaborators"
    and "soci_WriteSociIndex c = soci_WriteSociIndex okCollaborators"
    and "soci_GetIndexDescriptorCollection c = soci_GetIndexDescriptorCollection okCollaborators"
    and "sort_Slice c = sort_Slice okCollaborators"
    and "time_After c = time_After okCollaborators"
    and "parseImageUrl imageUrl = Return ref"
  shows "fst (handleRequest c imageUrl m w) = Return (BuildAndPushSuccessMessage, None)"
    and "dirs (snd (handleRequest c imageUrl m w)) =
           (if os_RemoveAll c exampleDir = None then dirs w - {exampleDir}
            else insert exampleDir (dirs w))"
proof -
  have v: "registry_ValidateImageManifest c (fst (registryutils_Init c (refHost ref)))
           (refRepo ref) (refDigest ref) = None"
    by (simp add: assms(1))
  have mk: "os_MkdirTemp c ''/tmp'' ''soci-lambda'' = (exampleDir, None)"
    by (simp add: assms(2) exampleDir_def)
  have st: "oci_NewWithContext c (path_Join exampleDir artifactsStoreName) = None"
    by (simp add: assms(3))
  have pl: "registry_Pull c (fst (registryutils_Init c (refHost ref))) (refRepo ref)
           (SociStore (path_Join exampleDir artifactsStoreName)) (refDigest ref) = Inr imageDesc"
    by (simp add: assms(4))
  have ps: "registry_Push c (fst (registryutils_Init c (refHost ref)))
           (SociStore (path_Join exampleDir artifactsStoreName)) indexDescNew (refRepo ref) = None"
    by (simp add: assms(5))
  have tm: "time_After c (ctx_Deadline c - 10000000000) = None"
    by (simp add: assms(13))
  show "fst (handleRequest c imageUrl m w) = Return (BuildAndPushSuccessMessage, None)"
    by (rule handleRequest_success[OF assms(14) v mk st pl _ ps tm])
       (rule buildIndex_example[OF assms(6-12)])
  show "dirs (snd (handleRequest c imageUrl m w)) =
           (if os_RemoveAll c exampleDir = None then dirs w - {exampleDir}
            else insert exampleDir (dirs w))"
    by (rule handleRequest_dirs[OF assms(14) v mk tm])
qed

section \<open>The properties claimed of the handler\<close>

text \<open>
  C1. The error of \<open>registryutils.Init\<close> is printed and dropped: with a registry
  initialization that fails and every later step succeeding, \<open>handleRequest\<close> returns
  "Successfully built and pushed SOCI index" with a nil error. (The other collaborator
  errors go through \<open>lambdaError\<close>, which returns them.)
\<close>

theorem registry_init_error_is_swallowed:
  "registryutils_Init initFailingCollaborators ''registry.example.com'' =
     (None, Some (GoError ''no valid credentials''))
   \<and> parseImageUrl exampleUrl =
       Return \<lparr>refHost = ''registry.example.com'', refRepo = ''repo'', refDigest = ''latest''\<rparr>
   \<and> fst (handleRequest initFailingCollaborators exampleUrl 10485760 emptyWorld) =
        Return (''Successfully built and pushed SOCI index'', None)"
proof -
  have "fst (handleRequest initFailingCollaborators exampleUrl 10485760 emptyWorld) =
          Return (BuildAndPushSuccessMessage, None)"
    by (rule example_run_succeeds(1)[OF _ _ _ _ _ _ _ _ _ _ _ _ _ parse_example])
       (simp_all add: initFailingCollaborators_def)
  then show ?thesis
    by (simp add: initFailingCollaborators_def BuildAndPushSuccessMessage_def parse_example)
qed

text \<open>
  C2. When \<open>ValidateImageManifest\<close>, called on the parsed reference, returns an error,
  \<open>handleRequest\<close> returns the fixed string "Exited early due to manifest validation
  error" with a nil error, and the run adds no later step to the trace (no free-space
  probe, no directory creation or removal, no watcher, no store, pull, build or push)
  and leaves the disk as it was.
\<close>

theorem validation_error_skips:
  assumes "parseImageUrl imageUrl = Return ref"
    and "registry_ValidateImageManifest c (fst (registryutils_Init c (refHost ref)))
           (refRepo ref) (refDigest ref) = Some e"
  shows "fst (handleRequest c imageUrl m w) =
           Return (''Exited early due to manifest validation error'', None)
       \<and> filter is_later_step (trace (snd (handleRequest c imageUrl m w))) =
           filter is_later_step (trace w)
       \<and> dirs (snd (handleRequest c imageUrl m w)) = dirs w"
  by (simp add: handleRequest_invalid[OF assms] after_validation_later after_validation_dirs)

theorem validation_error_skips_witness:
  "parseImageUrl exampleUrl =
     Return \<lparr>refHost = ''registry.example.com'', refRepo = ''repo'', refDigest = ''latest''\<rparr>
   \<and> registry_ValidateImageManifest rejectingCollaborators
        (fst (registryutils_Init rejectingCollaborators ''registry.example.com''))
        ''repo'' ''latest'' = Some (GoError ''unsupported media type'')
   \<and> fst (handleRequest rejectingCollaborators exampleUrl 10485760 emptyWorld) =
        Return (''Exited early due to manifest validation error'', None)
   \<and> filter is_later_step (trace (snd (handleRequest rejectingCollaborators exampleUrl 10485760 emptyWorld))) = []
   \<and> dirs (snd (handleRequest rejectingCollaborators exampleUrl 10485760 emptyWorld)) = {}"
  using validation_error_skips[of exampleUrl
      "\<lparr>refHost = ''registry.example.com'', refRepo = ''repo'', refDigest = ''latest''\<rparr>"
      rejectingCollaborators "GoError ''unsupported media type''" 10485760 emptyWorld]
  by (simp add: parse_example rejectingCollaborators_def okCollaborators_def emptyWorld_def)




text \<open>
  C4, as the code has it. The handler has no malformed-reference error. An image URI
  with no colon makes \<open>strings.Split(imageUrl, ":")[1]\<close> panic with an index out of
  range, before anything is called or logged. An image URI with a colon and no path
  separator parses without failure: the registry host is the whole URI, the digest is
  the piece after the first colon, and the repository is the URI with \<open>":" + digest\<close>
  trimmed from its end.
\<close>

theorem reference_without_separator:
  "(CHR '':'' \<notin> set imageUrl \<longrightarrow>
      handleRequest c imageUrl m w = (Panic (IndexOutOfRange 1 1), w))
   \<and> (CHR '':'' \<in> set imageUrl \<and> CHR ''/'' \<notin> set imageUrl \<longrightarrow>
      parseImageUrl imageUrl =
        Return \<lparr>refHost = imageUrl,
                refRepo = strings_TrimSuffix imageUrl
                            ('':'' @ strings_Split imageUrl (CHR '':'') ! 1),
                refDigest = strings_Split imageUrl (CHR '':'') ! 1\<rparr>)"
  by (simp add: parse_no_colon handleRequest_panic parse_no_slash)

theorem reference_without_separator_witness:
  "CHR '':'' \<notin> set ''repo''
   \<and> handleRequest okCollaborators ''repo'' 10485760 emptyWorld =
        (Panic (IndexOutOfRange 1 1), emptyWorld)
   \<and> CHR '':'' \<in> set ''repo:latest'' \<and> CHR ''/'' \<notin> set ''repo:latest''
   \<and> parseImageUrl ''repo:latest'' =
        Return \<lparr>refHost = ''repo:latest'', refRepo = ''repo'', refDigest = ''latest''\<rparr>"
  using reference_without_separator[of "''repo''" okCollaborators 10485760 emptyWorld]
        reference_without_separator[of "''repo:latest''" okCollaborators 10485760 emptyWorld]
  by (simp add: strings_TrimSuffix_def Let_def)

text \<open>The URI \<open>repo:latest\<close> has no path separator, yet it parses and the run goes on
  to build and push; the URI \<open>repo\<close> has no colon, and the handler panics instead of
  returning an error.\<close>

theorem malformed_reference_counterexample:
  "CHR ''/'' \<notin> set ''repo:latest''
   \<and> parseImageUrl ''repo:latest'' =
        Return \<lparr>refHost = ''repo:latest'', refRepo = ''repo'', refDigest = ''latest''\<rparr>
   \<and> fst (handleRequest okCollaborators ''repo:latest'' 10485760 emptyWorld) =
        Return (''Successfully built and pushed SOCI index'', None)
   \<and> CHR '':'' \<notin> set ''repo''
   \<and> fst (handleRequest okCollaborators ''repo'' 10485760 emptyWorld) =
        Panic (IndexOutOfRange 1 1)"
proof -
  have p: "parseImageUrl ''repo:latest'' =
        Return \<lparr>refHost = ''repo:latest'', refRepo = ''repo'', refDigest = ''latest''\<rparr>"
    by (simp add: parseImageUrl_def strings_TrimPrefix_def strings_TrimSuffix_def Let_def)
  have q: "parseImageUrl ''repo'' = Panic (IndexOutOfRange 1 1)"
    by (simp add: parseImageUrl_def)
  have "fst (handleRequest okCollaborators ''repo:latest'' 10485760 emptyWorld) =
        Return (BuildAndPushSuccessMessage, None)"
    by (rule example_run_succeeds(1)[OF _ _ _ _ _ _ _ _ _ _ _ _ _ p]) (rule refl)+
  then show ?thesis
    by (simp add: p handleRequest_panic[OF q] BuildAndPushSuccessMessage_def)
qed

text \<open>
  C5. When every step of \<open>buildIndex\<close> up to the descriptor lookup succeeds and
  \<open>sort.Slice\<close> returns the looked-up descriptors rearranged in the order of
  \<open>CreatedAt\<close>: if the lookup returned one or more descriptors, \<open>buildIndex\<close>
  returns the descriptor of one of them whose creation time is not before that of any
  other; if it returned none, \<open>buildIndex\<close> returns the error "No SOCI indices found
  in OCI store" and no descriptor.
\<close>

theorem buildIndex_returns_latest:
  assumes "soci_NewDB c (path_Join d artifactsDbName) = Inr db"
    and "local_NewStore c (path_Join d artifactsStoreName) = Inr cs"
    and "soci_NewIndexBuilder c cs s db (platforms_DefaultSpec c) m = Inr b"
    and "builder_Build c b i = Inr idx"
    and "soci_WriteSociIndex c idx s db = None"
    and "soci_GetIndexDescriptorCollection c cs db i [platforms_DefaultSpec c] = Inr infos"
    and "mset (sort_Slice c (\<lambda>i j. Before (CreatedAt i) (CreatedAt j)) infos) = mset infos"
    and "sorted_wrt (\<lambda>a b. \<not> Before (CreatedAt b) (CreatedAt a))
           (sort_Slice c (\<lambda>i j. Before (CreatedAt i) (CreatedAt j)) infos)"
  shows "(infos \<noteq> [] \<longrightarrow>
            (\<exists>x\<in>set infos. fst (buildIndex c d s i m w) = Inr (Descriptor x)
                \<and> (\<forall>y\<in>set infos. CreatedAt y \<le> CreatedAt x)))
       \<and> (infos = [] \<longrightarrow>
            fst (buildIndex c d s i m w) = Inl (GoError ''No SOCI indices found in OCI store''))"
proof (cases "infos = []")
  case True
  have "fst (buildIndex c d s i m w) = Inl (GoError ''No SOCI indices found in OCI store'')"
    unfolding buildIndex_lookup[OF assms(1-6)] using True by simp
  then show ?thesis using True by simp
next
  case False
  define ys where "ys = sort_Slice c (\<lambda>i j. Before (CreatedAt i) (CreatedAt j)) infos"
  have res: "fst (buildIndex c d s i m w) = Inr (Descriptor (ys ! (length ys - 1)))"
    unfolding buildIndex_lookup[OF assms(1-6)] ys_def using False by simp
  have "mset ys = mset infos" and "sorted_wrt (\<lambda>a b. \<not> Before (CreatedAt b) (CreatedAt a)) ys"
    unfolding ys_def using assms(7,8) by simp_all
  from last_of_sorted_is_latest[OF this False] res
  have "\<exists>x\<in>set infos. fst (buildIndex c d s i m w) = Inr (Descriptor x)
                \<and> (\<forall>y\<in>set infos. CreatedAt y \<le> CreatedAt x)"
    by (intro bexI[of _ "ys ! (length ys - 1)"] conjI)
  then show ?thesis using False by simp
qed

theorem buildIndex_returns_latest_witness:
  "storedInfos \<noteq> []
   \<and> soci_GetIndexDescriptorCollection okCollaborators
        (ContentStore (path_Join exampleDir artifactsStoreName))
        (ArtifactsDb (path_Join exampleDir artifactsDbName))
        \<lparr>Name = ''repo@latest'', Target = imageDesc\<rparr>
        [platforms_DefaultSpec okCollaborators] = Inr storedInfos
   \<and> fst (buildIndex okCollaborators exampleDir (SociStore (path_Join exampleDir artifactsStoreName))
             \<lparr>Name = ''repo@latest'', Target = imageDesc\<rparr> 10485760 emptyWorld) = Inr indexDescNew
   \<and> soci_GetIndexDescriptorCollection emptyStoreCollaborators
        (ContentStore (path_Join exampleDir artifactsStoreName))
        (ArtifactsDb (path_Join exampleDir artifactsDbName))
        \<lparr>Name = ''repo@latest'', Target = imageDesc\<rparr>
        [platforms_DefaultSpec emptyStoreCollaborators] = Inr []
   \<and> fst (buildIndex emptyStoreCollaborators exampleDir
             (SociStore (path_Join exampleDir artifactsStoreName))
             \<lparr>Name = ''repo@latest'', Target = imageDesc\<rparr> 10485760 emptyWorld) =
        Inl (GoError ''No SOCI indices found in OCI store'')"
proof -
  let ?db = "ArtifactsDb (path_Join exampleDir artifactsDbName)"
  let ?cs = "ContentStore (path_Join exampleDir artifactsStoreName)"
  let ?s = "SociStore (path_Join exampleDir artifactsStoreName)"
  let ?b = "IndexBuilder ?cs ?s ?db (Platform ''linux'' ''amd64'') 10485760"
  let ?i = "\<lparr>Name = ''repo@latest'', Target = imageDesc\<rparr>"
  let ?lt = "\<lambda>i j. Before (CreatedAt i) (CreatedAt j)"
  have h1: "soci_NewDB okCollaborators (path_Join exampleDir artifactsDbName) = Inr ?db"
    by simp
  have h2: "local_NewStore okCollaborators (path_Join exampleDir artifactsStoreName) = Inr ?cs"
    by simp
  have h3: "soci_NewIndexBuilder okCollaborators ?cs ?s ?db (platforms_DefaultSpec okCollaborators)
              10485760 = Inr ?b"
    by simp
  have h4: "builder_Build okCollaborators ?b ?i = Inr (Index 1)" by simp
  have h5: "soci_WriteSociIndex okCollaborators (Index 1) ?s ?db = None" by simp
  have h6: "soci_GetIndexDescriptorCollection okCollaborators ?cs ?db ?i
              [platforms_DefaultSpec okCollaborators] = Inr storedInfos"
    by simp
  have h7: "mset (sort_Slice okCollaborators ?lt storedInfos) = mset storedInfos"
    unfolding ok_fields sort_example by (simp add: storedInfos_def)
  have h8: "sorted_wrt (\<lambda>a b. \<not> Before (CreatedAt b) (CreatedAt a))
              (sort_Slice okCollaborators ?lt storedInfos)"
    unfolding ok_fields sort_example by (simp add: Before_def)
  have ne: "storedInfos \<noteq> []" by (simp add: storedInfos_def)
  from buildIndex_returns_latest[OF h1 h2 h3 h4 h5 h6 h7 h8, of emptyWorld] ne
  obtain x where x: "x \<in> set storedInfos"
      "fst (buildIndex okCollaborators exampleDir ?s ?i 10485760 emptyWorld) = Inr (Descriptor x)"
      "\<forall>y\<in>set storedInfos. CreatedAt y \<le> CreatedAt x"
    by blast
  from x(1,3) have "Descriptor x = indexDescNew"
    by (auto simp: storedInfos_def)
  with x(2) have latest:
    "fst (buildIndex okCollaborators exampleDir ?s ?i 10485760 emptyWorld) = Inr indexDescNew"
    by simp
  have e1: "soci_NewDB emptyStoreCollaborators (path_Join exampleDir artifactsDbName) = Inr ?db"
    by (simp add: emptyStoreCollaborators_def)
  have e2: "local_NewStore emptyStoreCollaborators (path_Join exampleDir artifactsStoreName) =
              Inr ?cs"
    by (simp add: emptyStoreCollaborators_def)
  have e3: "soci_NewIndexBuilder emptyStoreCollaborators ?cs ?s ?db
              (platforms_DefaultSpec emptyStoreCollaborators) 10485760 = Inr ?b"
    by (simp add: emptyStoreCollaborators_def)
  have e4: "builder_Build emptyStoreCollaborators ?b ?i = Inr (Index 1)"
    by (simp add: emptyStoreCollaborators_def)
  have e5: "soci_WriteSociIndex emptyStoreCollaborators (Index 1) ?s ?db = None"
    by (simp add: emptyStoreCollaborators_def)
  have e6: "soci_GetIndexDescriptorCollection emptyStoreCollaborators ?cs ?db ?i
              [platforms_DefaultSpec emptyStoreCollaborators] = Inr []"
    by (simp add: emptyStoreCollaborators_def)
  have e7: "mset (sort_Slice emptyStoreCollaborators ?lt []) = mset []"
    by (simp add: emptyStoreCollaborators_def sort_by_def)
  have e8: "sorted_wrt (\<lambda>a b. \<not> Before (CreatedAt b) (CreatedAt a))
              (sort_Slice emptyStoreCollaborators ?lt [])"
    by (simp add: emptyStoreCollaborators_def sort_by_def)
  from buildIndex_returns_latest[OF e1 e2 e3 e4 e5 e6 e7 e8, of emptyWorld]
  have none: "fst (buildIndex emptyStoreCollaborators exampleDir ?s ?i 10485760 emptyWorld) =
                Inl (GoError ''No SOCI indices found in OCI store'')"
    by simp
  show ?thesis using ne h6 latest e6 none by simp
qed

text \<open>
  C6, as the code has it. Every call of \<open>handleRequest\<close> that created its workspace
  directory and returns ends with \<open>cleanUp\<close> on that directory: the last call of the
  run is \<open>os.RemoveAll\<close> on it, followed only by the log line for its error if it
  failed. When \<open>os.RemoveAll\<close> succeeds the directory no longer exists afterwards.
\<close>

theorem workspace_cleanup_on_every_return:
  assumes "parseImageUrl imageUrl = Return ref"
    and "registry_ValidateImageManifest c (fst (registryutils_Init c (refHost ref)))
           (refRepo ref) (refDigest ref) = None"
    and "os_MkdirTemp c ''/tmp'' ''soci-lambda'' = (d, None)"
    and "fst (handleRequest c imageUrl m w) = Return r"
  shows "(\<exists>evs. trace (snd (handleRequest c imageUrl m w)) =
                  evs @ [Call (CallRemoveAll d)] @
                  (case os_RemoveAll c d of
                     Some e \<Rightarrow> [Log Error ''Clean up error'' [E e]]
                   | None \<Rightarrow> []))
       \<and> (os_RemoveAll c d = None \<longrightarrow> d \<notin> dirs (snd (handleRequest c imageUrl m w)))"
proof -
  note run = handleRequest_returned[OF assms]
  have "\<exists>evs. trace (snd (handleRequest c imageUrl m w)) =
                  evs @ [Call (CallRemoveAll d)] @
                  (case os_RemoveAll c d of
                     Some e \<Rightarrow> [Log Error ''Clean up error'' [E e]]
                   | None \<Rightarrow> [])"
    by (simp add: run cleanUp_trace)
  moreover have "os_RemoveAll c d = None \<longrightarrow> d \<notin> dirs (snd (handleRequest c imageUrl m w))"
    by (simp add: run cleanUp_dirs)
  ultimately show ?thesis by blast
qed

theorem workspace_cleanup_on_every_return_witness:
  "parseImageUrl exampleUrl =
     Return \<lparr>refHost = ''registry.example.com'', refRepo = ''repo'', refDigest = ''latest''\<rparr>
   \<and> os_MkdirTemp okCollaborators ''/tmp'' ''soci-lambda'' = (exampleDir, None)
   \<and> fst (handleRequest okCollaborators exampleUrl 10485760 emptyWorld) =
        Return (''Successfully built and pushed SOCI index'', None)
   \<and> os_RemoveAll okCollaborators exampleDir = None
   \<and> exampleDir \<notin> dirs (snd (handleRequest okCollaborators exampleUrl 10485760 emptyWorld))"
proof -
  let ?ref = "\<lparr>refHost = ''registry.example.com'', refRepo = ''repo'', refDigest = ''latest''\<rparr>"
  have v: "registry_ValidateImageManifest okCollaborators
             (fst (registryutils_Init okCollaborators (refHost ?ref))) (refRepo ?ref) (refDigest ?ref)
           = None"
    by simp
  have mk: "os_MkdirTemp okCollaborators ''/tmp'' ''soci-lambda'' = (exampleDir, None)"
    by (simp add: exampleDir_def)
  have rm: "os_RemoveAll okCollaborators exampleDir = None" by simp
  have ret: "fst (handleRequest okCollaborators exampleUrl 10485760 emptyWorld) =
               Return (BuildAndPushSuccessMessage, None)"
    by (rule example_run_succeeds(1)[OF _ _ _ _ _ _ _ _ _ _ _ _ _ parse_example]) (rule refl)+
  from workspace_cleanup_on_every_return[OF parse_example v mk ret] rm
  have "exampleDir \<notin> dirs (snd (handleRequest okCollaborators exampleUrl 10485760 emptyWorld))"
    by blast
  then show ?thesis using parse_example mk rm ret by (simp add: BuildAndPushSuccessMessage_def)
qed

text \<open>When \<open>os.RemoveAll\<close> fails, \<open>cleanUp\<close> logs the error and the handler
  returns its outcome with the directory still on disk.\<close>

theorem workspace_remains_counterexample:
  "exampleDir \<notin> dirs emptyWorld
   \<and> os_MkdirTemp undeletableCollaborators ''/tmp'' ''soci-lambda'' = (exampleDir, None)
   \<and> fst (handleRequest undeletableCollaborators exampleUrl 10485760 emptyWorld) =
        Return (''Successfully built and pushed SOCI index'', None)
   \<and> exampleDir \<in> dirs (snd (handleRequest undeletableCollaborators exampleUrl 10485760 emptyWorld))"
proof -
  note run = example_run_succeeds[of undeletableCollaborators exampleUrl _ 10485760 emptyWorld,
                OF _ _ _ _ _ _ _ _ _ _ _ _ _ parse_example]
  have "fst (handleRequest undeletableCollaborators exampleUrl 10485760 emptyWorld) =
          Return (BuildAndPushSuccessMessage, None)"
    by (rule run(1)) (simp_all add: undeletableCollaborators_def)
  moreover have "dirs (snd (handleRequest undeletableCollaborators exampleUrl 10485760 emptyWorld)) =
           (if os_RemoveAll undeletableCollaborators exampleDir = None
            then dirs emptyWorld - {exampleDir} else insert exampleDir (dirs emptyWorld))"
    by (rule run(2)) (simp_all add: undeletableCollaborators_def)
  ultimately show ?thesis
    by (simp add: undeletableCollaborators_def BuildAndPushSuccessMessage_def emptyWorld_def
          exampleDir_def)
qed

text \<open>
  C8. When the reference parses, the manifest validates and \<open>os.MkdirTemp\<close> fails with
  \<open>e\<close>, \<open>handleRequest\<close> returns "Directory create error" together with \<open>e\<close>,
  which is not nil.
\<close>

theorem directory_error_returned:
  assumes "parseImageUrl imageUrl = Return ref"
    and "registry_ValidateImageManifest c (fst (registryutils_Init c (refHost ref)))
           (refRepo ref) (refDigest ref) = None"
    and "os_MkdirTemp c ''/tmp'' ''soci-lambda'' = (d, Some e)"
  shows "fst (handleRequest c imageUrl m w) = Return (''Directory create error'', Some e)"
  using assms by (rule handleRequest_no_dir)

theorem directory_error_returned_witness:
  "parseImageUrl exampleUrl =
     Return \<lparr>refHost = ''registry.example.com'', refRepo = ''repo'', refDigest = ''latest''\<rparr>
   \<and> registry_ValidateImageManifest noTempCollaborators
        (fst (registryutils_Init noTempCollaborators ''registry.example.com''))
        ''repo'' ''latest'' = None
   \<and> os_MkdirTemp noTempCollaborators ''/tmp'' ''soci-lambda'' =
        ([], Some (GoError ''mkdir: read-only file system''))
   \<and> fst (handleRequest noTempCollaborators exampleUrl 10485760 emptyWorld) =
        Return (''Directory create error'', Some (GoError ''mkdir: read-only file system''))"
  using directory_error_returned[of exampleUrl
      "\<lparr>refHost = ''registry.example.com'', refRepo = ''repo'', refDigest = ''latest''\<rparr>"
      noTempCollaborators "[]" "GoError ''mkdir: read-only file system''" 10485760 emptyWorld]
  by (simp add: parse_example noTempCollaborators_def okCollaborators_def)

text \<open>Where the reference has one colon only, after the repository, the three parts are
  the ones written.\<close>

lemma parse_reference_one_colon:
  assumes "CHR ''/'' \<notin> set host" and "CHR '':'' \<notin> set host"
    and "CHR '':'' \<notin> set repository" and "CHR '':'' \<notin> set dg"
  shows "parseImageUrl (host @ ''/'' @ repository @ '':'' @ dg) =
           Return \<lparr>refHost = host, refRepo = repository, refDigest = dg\<rparr>
       \<and> host = takeWhile (\<lambda>x. x \<noteq> CHR ''/'') (host @ ''/'' @ repository @ '':'' @ dg)
       \<and> dg = tl (dropWhile (\<lambda>x. x \<noteq> CHR '':'') (host @ ''/'' @ repository @ '':'' @ dg))"
proof -
  have "takeWhile (\<lambda>x. x \<noteq> CHR ''/'') (host @ CHR ''/'' # repository @ '':'' @ dg) = host"
    using assms(1) by (rule takeWhile_sep)
  moreover have "CHR '':'' \<notin> set (host @ ''/'' @ repository)" using assms(2,3) by simp
  from dropWhile_sep[OF this, of dg]
  have "dropWhile (\<lambda>x. x \<noteq> CHR '':'') (host @ ''/'' @ repository @ '':'' @ dg) = '':'' @ dg"
    by simp
  ultimately show ?thesis using parse_form[OF assms] by simp
qed

text \<open>
  C9. A digest that carries its algorithm prefix has a colon of its own, and the code
  cuts at the first two colons: for \<open>registry.example.com/repo:sha256:aaaa\<close>, whose
  host has no colon and whose digest \<open>sha256:aaaa\<close> is the text after the first colon,
  the parsed digest is \<open>sha256\<close> and the parsed repository is still
  \<open>repo:sha256:aaaa\<close>, the suffix \<open>":" + digest\<close> not being there to trim. With
  \<open>@\<close> before the digest, the parsed digest is \<open>aaaa\<close> and the repository
  \<open>repo@sha256\<close>.
\<close>

theorem digest_with_algorithm_prefix_is_cut:
  "''registry.example.com/repo:sha256:aaaa'' =
      ''registry.example.com'' @ ''/'' @ ''repo'' @ '':'' @ ''sha256:aaaa''
   \<and> CHR '':'' \<notin> set ''registry.example.com''
   \<and> tl (dropWhile (\<lambda>x. x \<noteq> CHR '':'') ''registry.example.com/repo:sha256:aaaa'') = ''sha256:aaaa''
   \<and> parseImageUrl ''registry.example.com/repo:sha256:aaaa'' =
        Return \<lparr>refHost = ''registry.example.com'', refRepo = ''repo:sha256:aaaa'',
                refDigest = ''sha256''\<rparr>
   \<and> parseImageUrl ''registry.example.com/repo@sha256:aaaa'' =
        Return \<lparr>refHost = ''registry.example.com'', refRepo = ''repo@sha256'',
                refDigest = ''aaaa''\<rparr>"
  by (simp add: parseImageUrl_def strings_TrimPrefix_def strings_TrimSuffix_def Let_def)

text \<open>
  C10. Free space below 6,000,000,000 bytes does not stop \<open>createTempDir\<close>: when
  \<open>os.MkdirTemp\<close> succeeds, \<open>createTempDir\<close> returns its directory with a nil
  error, the directory exists afterwards, and the only trace of the low capacity is one
  warning line between the two information lines.
\<close>

theorem low_free_space_is_not_fatal:
  assumes "fs_CalculateFreeSpace c ''/tmp'' < 6000000000"
    and "os_MkdirTemp c ''/tmp'' ''soci-lambda'' = (d, None)"
  shows "fst (createTempDir c w) = (d, None)
       \<and> d \<in> dirs (snd (createTempDir c w))
       \<and> trace (snd (createTempDir c w)) =
           trace w @
           [Call (CallCalculateFreeSpace ''/tmp''),
            Log Info ''There are %d bytes of free space in /tmp directory''
              [N (fs_CalculateFreeSpace c ''/tmp'')],
            Log Warn ''Free space in /tmp is only %d bytes, which is less than 6GB''
              [N (fs_CalculateFreeSpace c ''/tmp'')],
            Log Info ''Creating a directory to store images and SOCI artifacts'' [],
            Call (CallMkdirTemp ''/tmp'' ''soci-lambda'')]"
  using assms by (simp add: createTempDir_fst createTempDir_dirs createTempDir_trace)

theorem low_free_space_is_not_fatal_witness:
  "fs_CalculateFreeSpace lowSpaceCollaborators ''/tmp'' < 6000000000
   \<and> os_MkdirTemp lowSpaceCollaborators ''/tmp'' ''soci-lambda'' = (exampleDir, None)
   \<and> fst (createTempDir lowSpaceCollaborators emptyWorld) = (exampleDir, None)
   \<and> exampleDir \<in> dirs (snd (createTempDir lowSpaceCollaborators emptyWorld))"
  using low_free_space_is_not_fatal[of lowSpaceCollaborators exampleDir emptyWorld]
  by (simp add: lowSpaceCollaborators_def okCollaborators_def exampleDir_def)

end
